theory Spec2Isabelle
  imports Complex_Main "HOL-Library.Word"
begin

section \<open>FeatureFinderMultiplex: mass patterns and quantitation\<close>

text \<open>
  A shallow embedding of \<^verbatim>\<open>src/topp/FeatureFinderMultiplex.cpp\<close>. The member
  variables of \<^verbatim>\<open>TOPPFeatureFinderMultiplex\<close> that the embedded functions read are
  the fields of a record; the trailing underscore of the C++ names is dropped.
  Mass shifts are C++ doubles read from the parameter file; they are modelled as exact
  reals (no rounding). A C++ exception is a value of the type \<open>error\<close>, and so are the
  two kinds of undefined behaviour that the embedded code can reach: a vector read
  \<^verbatim>\<open>v[i]\<close> beyond the size of the vector and an integer division by zero.
  \<open>Raised\<close> stands for an exception of a class that is declared elsewhere, with its name,
  and \<open>EmptyInput\<close> is the error that the specification names for an input without
  spectra of level 1; no code of the embedded file raises it.
\<close>

datatype error =
    IllegalArgument
  | InvalidParameter
  | OutOfBounds
  | DivisionByZero
  | EmptyInput
  | Raised string

subsection \<open>Strings\<close>

text \<open>\<^verbatim>\<open>s.find(p) != std::string::npos\<close>: the pattern occurs somewhere in the string.\<close>

fun starts_with :: "string \<Rightarrow> string \<Rightarrow> bool" where
  "starts_with s [] = True"
| "starts_with [] (p # ps) = False"
| "starts_with (c # cs) (p # ps) = (c = p \<and> starts_with cs ps)"

fun found :: "string \<Rightarrow> string \<Rightarrow> bool" where
  "found [] p = (p = [])"
| "found (c # cs) p = (starts_with (c # cs) p \<or> found cs p)"

text \<open>
  \<^verbatim>\<open>boost::split(result, input, boost::is_any_of(ds))\<close> without token compression:
  one token per delimiter plus one, empty tokens kept.
\<close>

fun split_any :: "string \<Rightarrow> string \<Rightarrow> string list" where
  "split_any ds [] = [[]]"
| "split_any ds (c # cs) =
     (let r = split_any ds cs
      in if c \<in> set ds then [] # r else (c # hd r) # tl r)"

subsection \<open>Parameters\<close>

type_synonym MassPattern = "real list"

record params =
  labels :: string
  missed_cleavages :: nat
  knock_out :: bool
  label_massshift :: "(string \<times> real) list"

text \<open>The defaults of section "labels" (\<^verbatim>\<open>getSubsectionDefaults_\<close>).\<close>

definition default_label_massshift :: "(string \<times> real) list" where
  "default_label_massshift =
     [(''Arg6'', 6.0201290268), (''Arg10'', 10.008268600),
      (''Lys4'', 4.0251069836), (''Lys6'', 6.0201290268), (''Lys8'', 8.0141988132),
      (''Dimethyl0'', 28.031300), (''Dimethyl4'', 32.056407),
      (''Dimethyl6'', 34.063117), (''Dimethyl8'', 36.075670),
      (''ICPL0'', 105.021464), (''ICPL4'', 109.046571),
      (''ICPL6'', 111.041593), (''ICPL10'', 115.066700)]"

text \<open>\<^verbatim>\<open>label_massshift[key]\<close>: \<^verbatim>\<open>std::map::operator[]\<close> yields 0.0 for a key not in the map.\<close>

definition massshift :: "(string \<times> real) list \<Rightarrow> string \<Rightarrow> real" where
  "massshift tbl key = (case map_of tbl key of Some v \<Rightarrow> v | None \<Rightarrow> 0)"

subsection \<open>generateMassPatterns_\<close>

definition samples_labels_of :: "string \<Rightarrow> string list list" where
  "samples_labels_of ls =
     map (split_any '',;: '') (filter (\<lambda>t. t \<noteq> []) (split_any ''[](){}'' ls))"

definition all_labels :: string where
  "all_labels = ''Arg6 Arg10 Lys4 Lys6 Lys8 Dimethyl0 Dimethyl4 Dimethyl6 Dimethyl8 ICPL0 ICPL4 ICPL6 ICPL10''"

definition there :: "string \<Rightarrow> string \<Rightarrow> real" where
  "there label name = (if found label name then 1 else 0)"

text \<open>
  The body of the loop over the labels \<open>j\<close> of one sample: the state is
  \<open>(mass_shift, goAhead_Arg, goAhead_Lys)\<close>.
\<close>

definition label_step ::
  "(string \<times> real) list \<Rightarrow> nat \<Rightarrow> nat \<Rightarrow> real \<times> bool \<times> bool \<Rightarrow> string \<Rightarrow> real \<times> bool \<times> bool" where
  "label_step tbl ArgPerPeptide LysPerPeptide st label =
     (case st of (mass_shift, goAhead_Arg, goAhead_Lys) \<Rightarrow>
        let Arg6There = there label ''Arg6'';
            Arg10There = there label ''Arg10'';
            Lys4There = there label ''Lys4'';
            Lys6There = there label ''Lys6'';
            Lys8There = there label ''Lys8''
        in (mass_shift
              + real ArgPerPeptide
                  * (Arg6There * massshift tbl ''Arg6'' + Arg10There * massshift tbl ''Arg10'')
              + real LysPerPeptide
                  * (Lys4There * massshift tbl ''Lys4'' + Lys6There * massshift tbl ''Lys6''
                     + Lys8There * massshift tbl ''Lys8''),
            goAhead_Arg \<or> \<not> (ArgPerPeptide \<noteq> 0 \<and> Arg6There + Arg10There = 0),
            goAhead_Lys \<or> \<not> (LysPerPeptide \<noteq> 0 \<and> Lys4There + Lys6There + Lys8There = 0)))"

text \<open>The loop over the samples \<open>i\<close>: a sample adds its shift to the pattern or is skipped.\<close>

definition sample_shift ::
  "(string \<times> real) list \<Rightarrow> nat \<Rightarrow> nat \<Rightarrow> string list \<Rightarrow> real list" where
  "sample_shift tbl a l sample =
     (case foldl (label_step tbl a l) (0, False, False) sample of
        (mass_shift, goAhead_Arg, goAhead_Lys) \<Rightarrow>
          if goAhead_Arg \<and> goAhead_Lys \<and> mass_shift \<noteq> 0 then [mass_shift] else [])"

definition SILAC_pattern ::
  "(string \<times> real) list \<Rightarrow> string list list \<Rightarrow> nat \<Rightarrow> nat \<Rightarrow> MassPattern" where
  "SILAC_pattern tbl samples a l = 0 # concat (map (sample_shift tbl a l) samples)"

text \<open>
  The two loops over \<open>ArgPerPeptide\<close> and \<open>LysPerPeptide\<close>, both \<^verbatim>\<open>unsigned\<close> and
  running from 0 to \<open>missed_cleavages_ + 1\<close>; their sum is a 32-bit unsigned sum.
  \<open>missed_cleavages_\<close> is read from an integer parameter with minimum 0, so that
  \<open>missed_cleavages_ + 1\<close> itself does not wrap.
\<close>

definition SILAC_list ::
  "(string \<times> real) list \<Rightarrow> string list list \<Rightarrow> nat \<Rightarrow> MassPattern list" where
  "SILAC_list tbl samples mc =
     concat (map (\<lambda>a. concat (map (\<lambda>l.
        if (a + l) mod 4294967296 \<le> mc + 1
        then (let temp = SILAC_pattern tbl samples a l
              in if length temp > 1 then [temp] else [])
        else []) [0 ..< mc + 2])) [0 ..< mc + 2])"

text \<open>
  Dimethyl or ICPL: every sample is read at its first label,
  \<^verbatim>\<open>samples_labels[i][0]\<close>, and the first sample at \<^verbatim>\<open>samples_labels[0][0]\<close>.
\<close>

definition first_label_pattern ::
  "(string \<times> real) list \<Rightarrow> string list list \<Rightarrow> nat \<Rightarrow> error + MassPattern" where
  "first_label_pattern tbl samples mc =
     (if \<exists>s \<in> set samples. s = [] then Inl OutOfBounds
      else Inr (map (\<lambda>s. real (mc + 1) * (massshift tbl (hd s) - massshift tbl (hd (hd samples))))
                  samples))"

fun collect :: "(error + 'a) list \<Rightarrow> error + 'a list" where
  "collect [] = Inr []"
| "collect (x # xs) =
     (case x of Inl e \<Rightarrow> Inl e
      | Inr v \<Rightarrow> (case collect xs of Inl e \<Rightarrow> Inl e | Inr vs \<Rightarrow> Inr (v # vs)))"

definition first_label_list ::
  "(string \<times> real) list \<Rightarrow> string list list \<Rightarrow> nat \<Rightarrow> error + MassPattern list" where
  "first_label_list tbl samples missed =
     collect (map (first_label_pattern tbl samples) [0 ..< missed + 1])"

text \<open>
  The knock-out patterns of one enumerated pattern, for a quadruplet and for a triplet
  experiment. \<^verbatim>\<open>list[i][k]\<close> beyond the size of \<^verbatim>\<open>list[i]\<close> is an out-of-range read.
\<close>

definition knock_out4 :: "MassPattern \<Rightarrow> error + MassPattern list" where
  "knock_out4 p =
     (if length p < 4 then Inl OutOfBounds
      else Inr [[0, p ! 2 - p ! 1, p ! 3 - p ! 1],
                [0, p ! 2 - p ! 0, p ! 3 - p ! 0],
                [0, p ! 1 - p ! 0, p ! 2 - p ! 0],
                [0, p ! 1],
                [0, p ! 2],
                [0, p ! 3],
                [0, p ! 2 - p ! 1],
                [0, p ! 3 - p ! 1],
                [0, p ! 3 - p ! 2]])"

definition knock_out3 :: "MassPattern \<Rightarrow> error + MassPattern list" where
  "knock_out3 p =
     (if length p < 3 then Inl OutOfBounds
      else Inr [[0, p ! 1],
                [0, p ! 2 - p ! 1],
                [0, p ! 2]])"

definition knock_out_patterns :: "bool \<Rightarrow> MassPattern list \<Rightarrow> error + MassPattern list" where
  "knock_out_patterns ko list =
     (case list of
        [] \<Rightarrow> Inl OutOfBounds
      | first # _ \<Rightarrow>
          let n = length first
          in if ko \<and> n = 4 then
               (case collect (map knock_out4 list) of
                  Inl e \<Rightarrow> Inl e
                | Inr added \<Rightarrow> Inr (list @ concat added @ [[0]]))
             else if ko \<and> n = 3 then
               (case collect (map knock_out3 list) of
                  Inl e \<Rightarrow> Inl e
                | Inr added \<Rightarrow> Inr (list @ concat added @ [[0]]))
             else if ko \<and> n = 2 then Inr (list @ [[0]])
             else Inr list)"

datatype labelling = SILAC | Dimethyl | ICPL | none

text \<open>The four flags and the test that exactly one labelling was recognised.\<close>

definition labelling_SILAC :: "string \<Rightarrow> bool" where
  "labelling_SILAC ls = (found ls ''Arg'' \<or> found ls ''Lys'')"

definition labelling_Dimethyl :: "string \<Rightarrow> bool" where
  "labelling_Dimethyl ls = found ls ''Dimethyl''"

definition labelling_ICPL :: "string \<Rightarrow> bool" where
  "labelling_ICPL ls = found ls ''ICPL''"

definition labelling_none :: "string \<Rightarrow> bool" where
  "labelling_none ls = (ls = [] \<or> ls = ''[]'' \<or> ls = ''()'' \<or> ls = ''{}'')"

definition labelling_of :: "string \<Rightarrow> error + labelling" where
  "labelling_of ls =
     (let is_SILAC = (labelling_SILAC ls \<and> \<not> labelling_Dimethyl ls \<and> \<not> labelling_ICPL ls
                        \<and> \<not> labelling_none ls);
          is_Dimethyl = (\<not> labelling_SILAC ls \<and> labelling_Dimethyl ls \<and> \<not> labelling_ICPL ls
                           \<and> \<not> labelling_none ls);
          is_ICPL = (\<not> labelling_SILAC ls \<and> \<not> labelling_Dimethyl ls \<and> labelling_ICPL ls
                       \<and> \<not> labelling_none ls);
          is_none = (\<not> labelling_SILAC ls \<and> \<not> labelling_Dimethyl ls \<and> \<not> labelling_ICPL ls
                       \<and> labelling_none ls)
      in if \<not> (is_SILAC \<or> is_Dimethyl \<or> is_ICPL \<or> is_none) then Inl IllegalArgument
         else if is_SILAC then Inr SILAC
         else if is_Dimethyl then Inr Dimethyl
         else if is_ICPL then Inr ICPL
         else Inr none)"

definition enumerate_patterns ::
  "labelling \<Rightarrow> (string \<times> real) list \<Rightarrow> string list list \<Rightarrow> nat \<Rightarrow> error + MassPattern list" where
  "enumerate_patterns mode tbl samples mc =
     (case mode of
        SILAC \<Rightarrow> Inr (SILAC_list tbl samples mc)
      | Dimethyl \<Rightarrow> first_label_list tbl samples mc
      | ICPL \<Rightarrow> first_label_list tbl samples mc
      | none \<Rightarrow> Inr [[0]])"

text \<open>
  The first part of \<^verbatim>\<open>generateMassPatterns_\<close>: classification, splitting of the label
  string, the test for unknown labels and the enumeration of the mass shift list.
\<close>

definition mass_shift_list :: "'a params_scheme \<Rightarrow> error + MassPattern list" where
  "mass_shift_list cfg =
     (case labelling_of (labels cfg) of
        Inl e \<Rightarrow> Inl e
      | Inr mode \<Rightarrow>
          let samples_labels = samples_labels_of (labels cfg)
          in if \<exists>sample \<in> set samples_labels. \<exists>label \<in> set sample. \<not> found all_labels label
             then Inl InvalidParameter
             else enumerate_patterns mode (label_massshift cfg) samples_labels
                    (missed_cleavages cfg))"

text \<open>The whole function: the enumeration followed by the knock-out block.\<close>

definition generateMassPatterns :: "'a params_scheme \<Rightarrow> error + MassPattern list" where
  "generateMassPatterns cfg =
     (case mass_shift_list cfg of
        Inl e \<Rightarrow> Inl e
      | Inr list \<Rightarrow> knock_out_patterns (knock_out cfg) list)"


subsection \<open>Doubles with NaN\<close>

text \<open>
  Intensities are C++ doubles and the code tests them for NaN. A double is a real, one of
  the two infinities or NaN. The arithmetic below is that of IEEE 754 binary64 with its
  range and without the rounding of the significand: a result of magnitude \<open>2\<^sup>-\<^sup>1\<^sup>0\<^sup>7\<^sup>5\<close>
  or less underflows to zero, a result of magnitude \<open>2\<^sup>1\<^sup>0\<^sup>2\<^sup>4 - 2\<^sup>9\<^sup>7\<^sup>0\<close> or more overflows
  to an infinity, and any other result is kept as it is. There is a single (positive) zero.
\<close>

datatype double = Fin real | PInf | NInf | NaN

definition to_double :: "real \<Rightarrow> double" where
  "to_double r =
     (if 2 ^ 1024 - 2 ^ 970 \<le> \<bar>r\<bar> then (if 0 < r then PInf else NInf)
      else if \<bar>r\<bar> \<le> 1 / 2 ^ 1075 then Fin 0
      else Fin r)"

definition isnan :: "double \<Rightarrow> bool" where
  "isnan d = (d = NaN)"

instantiation double :: "{plus, times, inverse}"
begin

fun plus_double :: "double \<Rightarrow> double \<Rightarrow> double" where
  "plus_double (Fin a) (Fin b) = to_double (a + b)"
| "plus_double NaN _ = NaN"
| "plus_double _ NaN = NaN"
| "plus_double PInf NInf = NaN"
| "plus_double NInf PInf = NaN"
| "plus_double PInf _ = PInf"
| "plus_double _ PInf = PInf"
| "plus_double NInf _ = NInf"
| "plus_double _ NInf = NInf"

fun times_double :: "double \<Rightarrow> double \<Rightarrow> double" where
  "times_double (Fin a) (Fin b) = to_double (a * b)"
| "times_double NaN _ = NaN"
| "times_double _ NaN = NaN"
| "times_double (Fin a) PInf = (if a = 0 then NaN else if 0 < a then PInf else NInf)"
| "times_double (Fin a) NInf = (if a = 0 then NaN else if 0 < a then NInf else PInf)"
| "times_double PInf (Fin b) = (if b = 0 then NaN else if 0 < b then PInf else NInf)"
| "times_double NInf (Fin b) = (if b = 0 then NaN else if 0 < b then NInf else PInf)"
| "times_double PInf PInf = PInf"
| "times_double NInf NInf = PInf"
| "times_double PInf NInf = NInf"
| "times_double NInf PInf = NInf"

fun divide_double :: "double \<Rightarrow> double \<Rightarrow> double" where
  "divide_double (Fin a) (Fin b) =
     (if b \<noteq> 0 then to_double (a / b)
      else if a = 0 then NaN else if 0 < a then PInf else NInf)"
| "divide_double NaN _ = NaN"
| "divide_double _ NaN = NaN"
| "divide_double (Fin a) PInf = Fin 0"
| "divide_double (Fin a) NInf = Fin 0"
| "divide_double PInf (Fin b) = (if 0 \<le> b then PInf else NInf)"
| "divide_double NInf (Fin b) = (if 0 \<le> b then NInf else PInf)"
| "divide_double PInf PInf = NaN"
| "divide_double PInf NInf = NaN"
| "divide_double NInf PInf = NaN"
| "divide_double NInf NInf = NaN"

definition inverse_double :: "double \<Rightarrow> double" where
  "inverse_double d = Fin 1 div d"

instance ..

end

subsection \<open>LinearRegressionWithoutIntercept\<close>

record LinearRegressionWithoutIntercept =
  sum_xx :: double
  sum_xy :: double
  n_data :: int

text \<open>The constructor.\<close>

definition new_linreg :: LinearRegressionWithoutIntercept where
  "new_linreg = \<lparr>sum_xx = Fin 0, sum_xy = Fin 0, n_data = 0\<rparr>"

text \<open>\<^verbatim>\<open>addData(double x, double y)\<close>\<close>

definition addData1 ::
  "LinearRegressionWithoutIntercept \<Rightarrow> double \<Rightarrow> double \<Rightarrow> LinearRegressionWithoutIntercept" where
  "addData1 r x y =
     r\<lparr>sum_xx := sum_xx r + x * x, sum_xy := sum_xy r + x * y, n_data := n_data r + 1\<rparr>"

text \<open>
  \<^verbatim>\<open>addData(std::vector<double> &x, std::vector<double> &y)\<close>: the loop runs over the
  indices of \<open>x\<close> and reads \<open>y\<close> at the same index.
\<close>

definition addData ::
  "LinearRegressionWithoutIntercept \<Rightarrow> double list \<Rightarrow> double list
     \<Rightarrow> error + LinearRegressionWithoutIntercept" where
  "addData r x y =
     (if length y < length x then Inl OutOfBounds
      else Inr (foldl (\<lambda>r i. addData1 r (x ! i) (y ! i)) r [0 ..< length x]))"

definition getSlope :: "LinearRegressionWithoutIntercept \<Rightarrow> double" where
  "getSlope r = (if n_data r < 2 then NaN else sum_xy r / sum_xx r)"

subsection \<open>getPeptideIntensities\<close>

text \<open>
  The body of the loop over the raw data points \<open>j\<close> for peptide \<open>i\<close>: the state is
  \<open>(intensities1, intensities2, intensity)\<close>; \<open>light\<close> is \<^verbatim>\<open>profile_intensities[0]\<close>.
\<close>

definition nonNaN_step ::
  "double list \<Rightarrow> double list \<Rightarrow> double list \<times> double list \<times> double \<Rightarrow> nat
     \<Rightarrow> double list \<times> double list \<times> double" where
  "nonNaN_step light peptide st j =
     (case st of (intensities1, intensities2, intensity) \<Rightarrow>
        if \<not> isnan (light ! j) \<and> \<not> isnan (peptide ! j)
        then (intensities1 @ [light ! j], intensities2 @ [peptide ! j], intensity + peptide ! j)
        else (intensities1, intensities2, intensity))"

text \<open>One round of the loop over the peptides: the ratio and the intensity pushed back.\<close>

definition ratio_and_intensity ::
  "double list \<Rightarrow> nat \<Rightarrow> double list \<Rightarrow> error + double \<times> double" where
  "ratio_and_intensity light count peptide =
     (case foldl (nonNaN_step light peptide) ([], [], Fin 0) [0 ..< count] of
        (intensities1, intensities2, intensity) \<Rightarrow>
          (case addData new_linreg intensities1 intensities2 of
             Inl e \<Rightarrow> Inl e
           | Inr linreg \<Rightarrow> Inr (getSlope linreg, intensity)))"

definition getPeptideIntensities :: "double list list \<Rightarrow> error + double list" where
  "getPeptideIntensities profile_intensities =
     (case profile_intensities of
        [] \<Rightarrow> Inl OutOfBounds
      | light # _ \<Rightarrow>
          let count = length light
          in if \<exists>p \<in> set profile_intensities. length p \<noteq> count then Inl IllegalArgument
             else (case collect (map (ratio_and_intensity light count) profile_intensities) of
                     Inl e \<Rightarrow> Inl e
                   | Inr ri \<Rightarrow>
                       let ratios = map fst ri;
                           intensities = map snd ri
                       in if length profile_intensities = 2 then
                            (let intensity1 = (intensities ! 0 + ratios ! 1 * intensities ! 1)
                                                / (Fin 1 + ratios ! 1 * ratios ! 1);
                                 intensity2 = ratios ! 1 * intensity1
                             in Inr [intensity1, intensity2])
                          else if length profile_intensities > 2 then
                            Inr (intensities ! 0
                                 # map (\<lambda>i. ratios ! i * intensities ! 0)
                                     [1 ..< length profile_intensities])
                          else Inr [intensities ! 0]))"


subsection \<open>generatePeakPatterns_\<close>

text \<open>
  \<^verbatim>\<open>MultiplexPeakPattern(c, peaksPerPeptideMax, massPatternList[i], i)\<close>: the class is
  declared elsewhere; the record keeps the four constructor arguments, and
  \<^verbatim>\<open>getMassShiftCount()\<close> is the number of mass shifts.
\<close>

record MultiplexPeakPattern =
  pattern_charge :: int
  peaks_per_peptide :: int
  mass_shifts :: MassPattern
  mass_shift_index :: nat

definition getMassShiftCount :: "MultiplexPeakPattern \<Rightarrow> nat" where
  "getMassShiftCount pattern = length (mass_shifts pattern)"

definition generatePeakPatterns ::
  "int \<Rightarrow> int \<Rightarrow> int \<Rightarrow> MassPattern list \<Rightarrow> MultiplexPeakPattern list" where
  "generatePeakPatterns charge_min charge_max peaksPerPeptideMax massPatternList =
     concat (map (\<lambda>c. map (\<lambda>i. \<lparr>pattern_charge = c, peaks_per_peptide = peaksPerPeptideMax,
                                 mass_shifts = massPatternList ! i, mass_shift_index = i\<rparr>)
                          [0 ..< length massPatternList])
               (rev [charge_min .. charge_max]))"

subsection \<open>generateMaps_\<close>

text \<open>
  The results of filtering and clustering, as \<^verbatim>\<open>generateMaps_\<close> reads them: a filter
  result is a vector of result peaks (\<^verbatim>\<open>getFilterResultPeak(index)\<close>), a result peak has
  a position, the vectors \<^verbatim>\<open>getMZShifts()\<close> and \<^verbatim>\<open>getIntensities()\<close> and its raw
  data points (\<^verbatim>\<open>size()\<close>, \<^verbatim>\<open>getFilterResultRaw(i)\<close>), and a cluster has its points.
  The clusters of one pattern are a \<^verbatim>\<open>std::map<int,GridBasedCluster>\<close>, here the list
  of its entries in key order.
\<close>

record MultiplexFilterResultRaw =
  raw_intensities :: "double list"

record MultiplexFilterResultPeak =
  peak_mz :: double
  peak_rt :: double
  peak_mz_shifts :: "double list"
  peak_intensities :: "double list"
  peak_raw :: "MultiplexFilterResultRaw list"

type_synonym MultiplexFilterResult = "MultiplexFilterResultPeak list"

record GridBasedCluster =
  points :: "int list"

record FeatureHandle =
  handle_mz :: double
  handle_rt :: double
  handle_intensity :: double
  handle_charge :: int
  handle_map_index :: nat

record ConsensusFeature =
  consensus_mz :: double
  consensus_rt :: double
  consensus_intensity :: double
  consensus_charge :: int
  consensus_quality :: double
  consensus_handles :: "FeatureHandle list"

record Feature =
  feature_mz :: double
  feature_rt :: double
  feature_intensity :: double
  feature_charge :: int
  feature_overall_quality :: double

text \<open>A vector read \<^verbatim>\<open>v[i]\<close>, and a loop whose body may fail.\<close>

definition read_at :: "'a list \<Rightarrow> nat \<Rightarrow> error + 'a" where
  "read_at v i = (if i < length v then Inr (v ! i) else Inl OutOfBounds)"

fun fold_err :: "('s \<Rightarrow> 'a \<Rightarrow> error + 's) \<Rightarrow> 's \<Rightarrow> 'a list \<Rightarrow> error + 's" where
  "fold_err f s [] = Inr s"
| "fold_err f s (x # xs) = (case f s x of Inl e \<Rightarrow> Inl e | Inr s' \<Rightarrow> fold_err f s' xs)"

text \<open>
  \<^verbatim>\<open>1 - 1/points.size()\<close>: \<open>points.size()\<close> is a \<^verbatim>\<open>size_t\<close> (64 bits), the two
  literals are converted to it, the division is the unsigned integer division and the
  difference is converted to the floating-point quality.
\<close>

definition quality :: "nat \<Rightarrow> error + double" where
  "quality points_size =
     (let n = (word_of_nat points_size :: 64 word)
      in if n = 0 then Inl DivisionByZero else Inr (Fin (real (unat (1 - 1 div n)))))"

text \<open>The vectors that the loop over the points of one cluster updates.\<close>

record cluster_sums =
  sum_intensity_mz :: "double list"
  sum_intensity_rt :: "double list"
  sum_intensity :: "double list"
  profile_intensities :: "double list list"

definition centre_step ::
  "nat \<Rightarrow> MultiplexFilterResultPeak \<Rightarrow> cluster_sums \<Rightarrow> nat \<Rightarrow> error + cluster_sums" where
  "centre_step ipp_max result_peak st peptide =
     (case read_at (peak_mz_shifts result_peak) ((ipp_max + 1) * peptide + 1) of
        Inl e \<Rightarrow> Inl e
      | Inr shift \<Rightarrow>
          (case read_at (peak_intensities result_peak) ((ipp_max + 1) * peptide + 1) of
             Inl e \<Rightarrow> Inl e
           | Inr intensity \<Rightarrow>
               Inr (st\<lparr>sum_intensity_mz := (sum_intensity_mz st)
                          [peptide := sum_intensity_mz st ! peptide
                                        + (peak_mz result_peak + shift) * intensity],
                        sum_intensity_rt := (sum_intensity_rt st)
                          [peptide := sum_intensity_rt st ! peptide
                                        + peak_rt result_peak * intensity],
                        sum_intensity := (sum_intensity st)
                          [peptide := sum_intensity st ! peptide + intensity]\<rparr>)))"

definition profile_step ::
  "nat \<Rightarrow> MultiplexFilterResultRaw \<Rightarrow> nat \<Rightarrow> cluster_sums \<Rightarrow> nat \<Rightarrow> error + cluster_sums" where
  "profile_step ipp_max result_raw peak st peptide =
     (case read_at (raw_intensities result_raw) ((ipp_max + 1) * peptide + peak + 1) of
        Inl e \<Rightarrow> Inl e
      | Inr v \<Rightarrow>
          Inr (st\<lparr>profile_intensities := (profile_intensities st)
                     [peptide := profile_intensities st ! peptide @ [v]]\<rparr>))"

definition raw_step ::
  "nat \<Rightarrow> nat \<Rightarrow> cluster_sums \<Rightarrow> MultiplexFilterResultRaw \<Rightarrow> error + cluster_sums" where
  "raw_step ipp_max count st result_raw =
     fold_err (\<lambda>st peak. fold_err (profile_step ipp_max result_raw peak) st [0 ..< count])
       st [0 ..< ipp_max]"

text \<open>The body of the loop over the points of a cluster.\<close>

definition cluster_point_step ::
  "nat \<Rightarrow> nat \<Rightarrow> MultiplexFilterResult list \<Rightarrow> nat \<Rightarrow> cluster_sums \<Rightarrow> int
     \<Rightarrow> error + cluster_sums" where
  "cluster_point_step ipp_max count filter_results pattern st index =
     (case read_at filter_results pattern of
        Inl e \<Rightarrow> Inl e
      | Inr filter_result \<Rightarrow>
          if index < 0 then Inl OutOfBounds
          else (case read_at filter_result (nat index) of
                  Inl e \<Rightarrow> Inl e
                | Inr result_peak \<Rightarrow>
                    (case fold_err (centre_step ipp_max result_peak) st [0 ..< count] of
                       Inl e \<Rightarrow> Inl e
                     | Inr st' \<Rightarrow> fold_err (raw_step ipp_max count) st' (peak_raw result_peak))))"

text \<open>
  The body of the loop over the clusters of a pattern: the consensus feature of the
  cluster and the features of its peptides. The counters of the file descriptions of
  the consensus map are not part of the model.
\<close>

definition cluster_features ::
  "nat \<Rightarrow> MultiplexPeakPattern list \<Rightarrow> MultiplexFilterResult list \<Rightarrow> nat \<Rightarrow> GridBasedCluster
     \<Rightarrow> error + ConsensusFeature \<times> Feature list" where
  "cluster_features ipp_max patterns filter_results pattern cluster =
     (case read_at patterns pattern of
        Inl e \<Rightarrow> Inl e
      | Inr pat \<Rightarrow>
          let count = getMassShiftCount pat;
              start = \<lparr>sum_intensity_mz = replicate count (Fin 0),
                        sum_intensity_rt = replicate count (Fin 0),
                        sum_intensity = replicate count (Fin 0),
                        profile_intensities = replicate count []\<rparr>
          in (case fold_err (cluster_point_step ipp_max count filter_results pattern) start
                     (points cluster) of
                Inl e \<Rightarrow> Inl e
              | Inr st \<Rightarrow>
                  (case getPeptideIntensities (profile_intensities st) of
                     Inl e \<Rightarrow> Inl e
                   | Inr peptide_intensities \<Rightarrow>
                       let average_peptide_intensity =
                             foldl (+) (Fin 0) peptide_intensities
                               / Fin (real (length peptide_intensities))
                       in (case quality (length (points cluster)) of
                             Inl e \<Rightarrow> Inl e
                           | Inr q \<Rightarrow>
                               Inr (\<lparr>consensus_mz = sum_intensity_mz st ! 0 / sum_intensity st ! 0,
                                      consensus_rt = sum_intensity_rt st ! 0 / sum_intensity st ! 0,
                                      consensus_intensity = average_peptide_intensity,
                                      consensus_charge = pattern_charge pat,
                                      consensus_quality = q,
                                      consensus_handles =
                                        map (\<lambda>peptide.
                                          \<lparr>handle_mz = sum_intensity_mz st ! peptide
                                                          / sum_intensity st ! peptide,
                                            handle_rt = sum_intensity_rt st ! peptide
                                                          / sum_intensity st ! peptide,
                                            handle_intensity = peptide_intensities ! peptide,
                                            handle_charge = pattern_charge pat,
                                            handle_map_index = peptide\<rparr>) [0 ..< count]\<rparr>,
                                    map (\<lambda>peptide.
                                          \<lparr>feature_mz = sum_intensity_mz st ! peptide
                                                           / sum_intensity st ! peptide,
                                            feature_rt = sum_intensity_rt st ! peptide
                                                           / sum_intensity st ! peptide,
                                            feature_intensity = peptide_intensities ! peptide,
                                            feature_charge = pattern_charge pat,
                                            feature_overall_quality = q\<rparr>) [0 ..< count])))))"

definition cluster_step ::
  "nat \<Rightarrow> MultiplexPeakPattern list \<Rightarrow> MultiplexFilterResult list \<Rightarrow> nat
     \<Rightarrow> ConsensusFeature list \<times> Feature list \<Rightarrow> int \<times> GridBasedCluster
     \<Rightarrow> error + ConsensusFeature list \<times> Feature list" where
  "cluster_step ipp_max patterns filter_results pattern maps entry =
     (case cluster_features ipp_max patterns filter_results pattern (snd entry) of
        Inl e \<Rightarrow> Inl e
      | Inr (consensus, features) \<Rightarrow> Inr (fst maps @ [consensus], snd maps @ features))"

definition pattern_step ::
  "nat \<Rightarrow> MultiplexPeakPattern list \<Rightarrow> MultiplexFilterResult list
     \<Rightarrow> (int \<times> GridBasedCluster) list list
     \<Rightarrow> ConsensusFeature list \<times> Feature list \<Rightarrow> nat
     \<Rightarrow> error + ConsensusFeature list \<times> Feature list" where
  "pattern_step ipp_max patterns filter_results cluster_results maps pattern =
     (case read_at cluster_results pattern of
        Inl e \<Rightarrow> Inl e
      | Inr clusters \<Rightarrow>
          fold_err (cluster_step ipp_max patterns filter_results pattern) maps clusters)"

definition generateMaps ::
  "nat \<Rightarrow> MultiplexPeakPattern list \<Rightarrow> MultiplexFilterResult list
     \<Rightarrow> (int \<times> GridBasedCluster) list list \<Rightarrow> error + ConsensusFeature list \<times> Feature list" where
  "generateMaps ipp_max patterns filter_results cluster_results =
     fold_err (pattern_step ipp_max patterns filter_results cluster_results) ([], [])
       [0 ..< length patterns]"


subsection \<open>main_\<close>

text \<open>The parameters of the tool that \<^verbatim>\<open>main_\<close> reads besides those of the generator.\<close>

record tool_params = params +
  in_file :: string
  out_file :: string
  out_features :: string
  charge_min :: nat
  charge_max :: nat
  isotopes_per_peptide_min :: nat
  isotopes_per_peptide_max :: nat

record Peak1D =
  peak1d_mz :: double
  peak1d_intensity :: double

record MSSpectrum =
  ms_level :: nat
  spectrum_rt :: double
  spectrum_peaks :: "Peak1D list"

type_synonym MSExperiment = "MSSpectrum list"

record PeakBoundary =
  mz_min :: double
  mz_max :: double

text \<open>
  \<^verbatim>\<open>main_\<close> calls classes that are declared elsewhere: \<^verbatim>\<open>MzMLFile\<close>,
  \<^verbatim>\<open>MSExperiment::sortSpectra\<close>, \<^verbatim>\<open>PeakPickerHiRes\<close>, \<^verbatim>\<open>MultiplexFiltering\<close>,
  \<^verbatim>\<open>MultiplexClustering\<close>, the sorting of the two maps and the two file writers. They
  are parameters of the model; each of them that can raise an exception returns a sum.
  The unique ids, the experiment type and the file description that
  \<^verbatim>\<open>writeConsensusMap_\<close> and \<^verbatim>\<open>writeFeatureMap_\<close> set before they store a map are not
  part of the model.
\<close>

record collaborators =
  load :: "string \<Rightarrow> error + MSExperiment"
  sortSpectra :: "MSExperiment \<Rightarrow> MSExperiment"
  pickExperiment :: "MSExperiment \<Rightarrow> error + MSExperiment \<times> PeakBoundary list list"
  filtering :: "tool_params \<Rightarrow> MSExperiment \<Rightarrow> MSExperiment \<Rightarrow> PeakBoundary list list
                  \<Rightarrow> MultiplexPeakPattern list \<Rightarrow> error + MultiplexFilterResult list"
  clustering :: "tool_params \<Rightarrow> MSExperiment \<Rightarrow> MSExperiment \<Rightarrow> PeakBoundary list list
                  \<Rightarrow> MultiplexFilterResult list \<Rightarrow> error + (int \<times> GridBasedCluster) list list"
  sort_consensus :: "ConsensusFeature list \<Rightarrow> ConsensusFeature list"
  sort_features :: "Feature list \<Rightarrow> Feature list"
  store_consensus :: "string \<Rightarrow> ConsensusFeature list \<Rightarrow> error + unit"
  store_features :: "string \<Rightarrow> Feature list \<Rightarrow> error + unit"

datatype ExitCodes = EXECUTION_OK | ILLEGAL_PARAMETERS | INCOMPATIBLE_INPUT_DATA

text \<open>A file that the run has stored.\<close>

datatype stored =
    ConsensusXML string "ConsensusFeature list"
  | FeatureXML string "Feature list"

text \<open>
  \<^verbatim>\<open>exp.getSpectra().erase(remove_if(..., InMSLevelRange(ListUtils::create<Int>("1"), true)), ...)\<close>:
  the spectra of level 1 stay.
\<close>

definition level1 :: "MSExperiment \<Rightarrow> MSExperiment" where
  "level1 experiment = filter (\<lambda>spectrum. ms_level spectrum = 1) experiment"

text \<open>
  The run: its result is the exception that ended it or the exit code returned, together
  with the files stored up to then.
\<close>

definition main :: "collaborators \<Rightarrow> tool_params \<Rightarrow> (error + ExitCodes) \<times> stored list" where
  "main c cfg =
     (case load c (in_file cfg) of
        Inl e \<Rightarrow> (Inl e, [])
      | Inr loaded \<Rightarrow>
          let experiment = sortSpectra c (level1 loaded)
          in (case pickExperiment c experiment of
                Inl e \<Rightarrow> (Inl e, [])
              | Inr (exp_picked, boundaries_exp_s) \<Rightarrow>
                  (case generateMassPatterns cfg of
                     Inl e \<Rightarrow> (Inl e, [])
                   | Inr masses \<Rightarrow>
                       let patterns = generatePeakPatterns (int (charge_min cfg))
                                        (int (charge_max cfg))
                                        (int (isotopes_per_peptide_max cfg)) masses
                       in (case filtering c cfg experiment exp_picked boundaries_exp_s patterns of
                             Inl e \<Rightarrow> (Inl e, [])
                           | Inr filter_results \<Rightarrow>
                               (case clustering c cfg experiment exp_picked boundaries_exp_s
                                       filter_results of
                                  Inl e \<Rightarrow> (Inl e, [])
                                | Inr cluster_results \<Rightarrow>
                                    (case generateMaps (isotopes_per_peptide_max cfg) patterns
                                            filter_results cluster_results of
                                       Inl e \<Rightarrow> (Inl e, [])
                                     | Inr (consensus_map, feature_map) \<Rightarrow>
                                         let sorted_consensus = sort_consensus c consensus_map;
                                             sorted_features = sort_features c feature_map
                                         in (case store_consensus c (out_file cfg)
                                                    sorted_consensus of
                                               Inl e \<Rightarrow> (Inl e, [])
                                             | Inr _ \<Rightarrow>
                                                 (case store_features c (out_features cfg)
                                                         sorted_features of
                                                    Inl e \<Rightarrow>
                                                      (Inl e,
                                                       [ConsensusXML (out_file cfg)
                                                          sorted_consensus])
                                                  | Inr _ \<Rightarrow>
                                                      (Inr EXECUTION_OK,
                                                       [ConsensusXML (out_file cfg)
                                                          sorted_consensus,
                                                        FeatureXML (out_features cfg)
                                                          sorted_features])))))))))"


subsection \<open>The collaborators of the specification\<close>



subsection \<open>The quantities of the specification\<close>

text \<open>
  The regression of the specification, to be compared with the loops above: the sample
  pairs \<open>(x\<^sub>1, x\<^sub>p)\<close> in which neither intensity is NaN, sums taken in sample order,
  the ratio \<open>(\<Sum> x\<^sub>p \<cdot> x\<^sub>1) / (\<Sum> x\<^sub>1\<^sup>2)\<close> fitted when there are two pairs or more,
  and the raw sum \<open>\<Sum> x\<^sub>p\<close>.
\<close>

definition valid_pairs :: "double list \<Rightarrow> double list \<Rightarrow> (double \<times> double) list" where
  "valid_pairs x1 xp = filter (\<lambda>(a, b). \<not> isnan a \<and> \<not> isnan b) (zip x1 xp)"

definition dsum :: "double list \<Rightarrow> double" where
  "dsum xs = foldl (+) (Fin 0) xs"

definition fitted_ratio :: "double list \<Rightarrow> double list \<Rightarrow> double" where
  "fitted_ratio x1 xp =
     (if length (valid_pairs x1 xp) < 2 then NaN
      else dsum (map (\<lambda>(a, b). b * a) (valid_pairs x1 xp))
             / dsum (map (\<lambda>(a, b). a * a) (valid_pairs x1 xp)))"

definition raw_sum :: "double list \<Rightarrow> double list \<Rightarrow> double" where
  "raw_sum x1 xp = dsum (map snd (valid_pairs x1 xp))"

subsection \<open>Inputs of the examples\<close>





text \<open>A result peak of a doublet with two isotopes per peptide and two raw data points.\<close>

definition example_peak :: MultiplexFilterResultPeak where
  "example_peak =
     \<lparr>peak_mz = Fin 500, peak_rt = Fin 100,
      peak_mz_shifts = [Fin 0, Fin 0, Fin 0.5, Fin 0, Fin 4, Fin 4.5],
      peak_intensities = [Fin 0, Fin 10, Fin 5, Fin 0, Fin 20, Fin 10],
      peak_raw = [\<lparr>raw_intensities = [Fin 0, Fin 10, Fin 5, Fin 0, Fin 20, Fin 10]\<rparr>,
                  \<lparr>raw_intensities = [Fin 0, Fin 8, Fin 4, Fin 0, Fin 16, Fin 8]\<rparr>]\<rparr>"


section \<open>Properties of the mass pattern generator\<close>

subsection \<open>Splitting and searching\<close>

lemma split_any_not_Nil: "split_any ds s \<noteq> []"
  by (induction s) (auto simp: Let_def)

lemma split_any_all_empty:
  "\<forall>t \<in> set (split_any ds s). t = [] \<Longrightarrow> set s \<subseteq> set ds"
proof (induction s)
  case Nil
  then show ?case by simp
next
  case (Cons c cs)
  show ?case
  proof (cases "c \<in> set ds")
    case True
    with Cons show ?thesis by (simp add: Let_def)
  next
    case False
    with Cons.prems show ?thesis by (simp add: Let_def)
  qed
qed

lemma starts_with_subset: "starts_with s p \<Longrightarrow> set p \<subseteq> set s"
  by (induction s p rule: starts_with.induct) auto

lemma found_subset: "found s p \<Longrightarrow> set p \<subseteq> set s"
proof (induction s)
  case Nil
  then show ?case by simp
next
  case (Cons c cs)
  from Cons.prems have "starts_with (c # cs) p \<or> found cs p" by simp
  then show ?case
  proof
    assume "starts_with (c # cs) p"
    then show ?thesis by (rule starts_with_subset)
  next
    assume "found cs p"
    then have "set p \<subseteq> set cs" by (rule Cons.IH)
    then show ?thesis by auto
  qed
qed

text \<open>A label string with a character that is no bracket has a sample.\<close>

lemma samples_labels_of_not_Nil:
  assumes "c \<in> set ls" and "c \<notin> set ''[](){}''"
  shows "samples_labels_of ls \<noteq> []"
proof
  assume "samples_labels_of ls = []"
  then have "\<forall>t \<in> set (split_any ''[](){}'' ls). t = []"
    by (auto simp: samples_labels_of_def filter_empty_conv)
  then have "set ls \<subseteq> set ''[](){}''" by (rule split_any_all_empty)
  with assms show False by blast
qed

subsection \<open>Loops that may fail\<close>

lemma collect_Inr_set:
  "collect xs = Inr vs \<Longrightarrow> v \<in> set vs \<Longrightarrow> Inr v \<in> set xs"
  by (induction xs arbitrary: vs) (auto split: sum.splits)

lemma collect_map_Inr: "\<forall>x \<in> set xs. f x = Inr (g x) \<Longrightarrow> collect (map f xs) = Inr (map g xs)"
  by (induction xs) simp_all

lemma collect_concat_length:
  assumes "collect (map f list) = Inr added" and "\<And>p qs. f p = Inr qs \<Longrightarrow> length qs = k"
  shows "length (concat added) = k * length list"
  using assms(1)
proof (induction list arbitrary: added)
  case Nil
  then show ?case by auto
next
  case (Cons p list)
  then obtain qs rest where "f p = Inr qs" "collect (map f list) = Inr rest" "added = qs # rest"
    by (auto split: sum.splits)
  with Cons.IH [of rest] assms(2) [of p qs] show ?case by simp
qed

subsection \<open>Evaluation\<close>

lemmas flag_defs = labelling_SILAC_def labelling_Dimethyl_def labelling_ICPL_def labelling_none_def

lemmas eval_defs = generateMassPatterns_def mass_shift_list_def labelling_of_def flag_defs
  samples_labels_of_def all_labels_def enumerate_patterns_def SILAC_list_def SILAC_pattern_def
  sample_shift_def label_step_def there_def massshift_def default_label_massshift_def
  knock_out_patterns_def knock_out3_def knock_out4_def first_label_list_def
  first_label_pattern_def Let_def

subsection \<open>Every pattern starts at 0\<close>

lemma SILAC_list_zero: "p \<in> set (SILAC_list tbl samples mc) \<Longrightarrow> p \<noteq> [] \<and> hd p = 0"
  by (auto simp: SILAC_list_def SILAC_pattern_def Let_def split: if_splits)

lemma first_label_pattern_zero:
  "first_label_pattern tbl samples m = Inr p \<Longrightarrow> samples \<noteq> [] \<Longrightarrow> p \<noteq> [] \<and> hd p = 0"
  by (cases samples) (auto simp: first_label_pattern_def split: if_splits)

lemma first_label_list_zero:
  assumes "first_label_list tbl samples mc = Inr list" and "samples \<noteq> []" and "p \<in> set list"
  shows "p \<noteq> [] \<and> hd p = 0"
proof -
  from assms(1,3) have "Inr p \<in> set (map (first_label_pattern tbl samples) [0 ..< mc + 1])"
    unfolding first_label_list_def by (rule collect_Inr_set)
  then obtain m where "first_label_pattern tbl samples m = Inr p" by auto
  then show ?thesis using assms(2) by (rule first_label_pattern_zero)
qed

lemma knock_out4_zero: "knock_out4 p = Inr qs \<Longrightarrow> q \<in> set qs \<Longrightarrow> q \<noteq> [] \<and> hd q = 0"
  by (auto simp: knock_out4_def split: if_splits)

lemma knock_out3_zero: "knock_out3 p = Inr qs \<Longrightarrow> q \<in> set qs \<Longrightarrow> q \<noteq> [] \<and> hd q = 0"
  by (auto simp: knock_out3_def split: if_splits)

lemma collect_concat_zero:
  assumes "collect (map f list) = Inr added" and "q \<in> set (concat added)"
    and "\<And>p qs q. f p = Inr qs \<Longrightarrow> q \<in> set qs \<Longrightarrow> q \<noteq> [] \<and> hd q = (0 :: real)"
  shows "q \<noteq> [] \<and> hd q = 0"
proof -
  from assms(2) obtain qs where qs: "qs \<in> set added" "q \<in> set qs" by auto
  from assms(1) qs(1) have "Inr qs \<in> set (map f list)" by (rule collect_Inr_set)
  then obtain p where "f p = Inr qs" by auto
  then show ?thesis using qs(2) by (rule assms(3))
qed

lemma knock_out_patterns_zero:
  assumes "knock_out_patterns ko list = Inr out" and "\<forall>p \<in> set list. p \<noteq> [] \<and> hd p = 0"
    and "q \<in> set out"
  shows "q \<noteq> [] \<and> hd q = 0"
proof (cases list)
  case Nil
  with assms(1) show ?thesis by (simp add: knock_out_patterns_def)
next
  case (Cons first rest)
  consider (four) "ko \<and> length first = 4" | (three) "ko \<and> length first = 3"
    | (two) "ko \<and> length first = 2" | (other) "\<not> (ko \<and> length first \<in> {2, 3, 4})"
    by auto
  then show ?thesis
  proof cases
    case four
    with assms(1) Cons obtain added where a: "collect (map knock_out4 list) = Inr added"
      and out: "out = list @ concat added @ [[0]]"
      by (auto simp: knock_out_patterns_def Let_def split: sum.splits)
    from assms(3) out consider "q \<in> set list" | "q \<in> set (concat added)" | "q = [0]" by auto
    then show ?thesis
    proof cases
      case 1 with assms(2) show ?thesis by blast
    next
      case 2 with a show ?thesis by (rule collect_concat_zero) (rule knock_out4_zero)
    next
      case 3 then show ?thesis by simp
    qed
  next
    case three
    with assms(1) Cons obtain added where a: "collect (map knock_out3 list) = Inr added"
      and out: "out = list @ concat added @ [[0]]"
      by (auto simp: knock_out_patterns_def Let_def split: sum.splits)
    from assms(3) out consider "q \<in> set list" | "q \<in> set (concat added)" | "q = [0]" by auto
    then show ?thesis
    proof cases
      case 1 with assms(2) show ?thesis by blast
    next
      case 2 with a show ?thesis by (rule collect_concat_zero) (rule knock_out3_zero)
    next
      case 3 then show ?thesis by simp
    qed
  next
    case two
    with assms(1) Cons have "out = list @ [[0]]"
      by (auto simp: knock_out_patterns_def Let_def)
    with assms(2,3) show ?thesis by auto
  next
    case other
    with assms(1) Cons have "out = list"
      by (auto simp: knock_out_patterns_def Let_def split: if_splits)
    with assms(2,3) show ?thesis by blast
  qed
qed

lemma labelling_of_Dimethyl: "labelling_of ls = Inr Dimethyl \<Longrightarrow> found ls ''Dimethyl''"
  by (auto simp: labelling_of_def flag_defs Let_def split: if_splits)

lemma labelling_of_ICPL: "labelling_of ls = Inr ICPL \<Longrightarrow> found ls ''ICPL''"
  by (auto simp: labelling_of_def flag_defs Let_def split: if_splits)

lemma enumerate_patterns_zero:
  assumes "labelling_of ls = Inr mode"
    and "enumerate_patterns mode tbl (samples_labels_of ls) mc = Inr list"
    and "p \<in> set list"
  shows "p \<noteq> [] \<and> hd p = 0"
proof (cases mode)
  case SILAC
  with assms(2,3) show ?thesis by (auto simp: enumerate_patterns_def dest: SILAC_list_zero)
next
  case Dimethyl
  with assms(1) have "found ls ''Dimethyl''" by (simp add: labelling_of_Dimethyl)
  then have "set ''Dimethyl'' \<subseteq> set ls" by (rule found_subset)
  then have "CHR ''D'' \<in> set ls" by simp
  then have "samples_labels_of ls \<noteq> []" by (rule samples_labels_of_not_Nil) simp
  with assms(2,3) Dimethyl show ?thesis
    by (auto simp: enumerate_patterns_def dest: first_label_list_zero)
next
  case ICPL
  with assms(1) have "found ls ''ICPL''" by (simp add: labelling_of_ICPL)
  then have "set ''ICPL'' \<subseteq> set ls" by (rule found_subset)
  then have "CHR ''I'' \<in> set ls" by simp
  then have "samples_labels_of ls \<noteq> []" by (rule samples_labels_of_not_Nil) simp
  with assms(2,3) ICPL show ?thesis
    by (auto simp: enumerate_patterns_def dest: first_label_list_zero)
next
  case none
  with assms(2,3) show ?thesis by (auto simp: enumerate_patterns_def)
qed

lemma mass_shift_list_zero:
  assumes "mass_shift_list cfg = Inr enum" and "p \<in> set enum"
  shows "p \<noteq> [] \<and> hd p = 0"
proof -
  from assms(1) obtain mode where m: "labelling_of (labels cfg) = Inr mode"
    and e: "enumerate_patterns mode (label_massshift cfg) (samples_labels_of (labels cfg))
              (missed_cleavages cfg) = Inr enum"
    by (auto simp: mass_shift_list_def Let_def split: sum.splits if_splits)
  from m e assms(2) show ?thesis by (rule enumerate_patterns_zero)
qed

text \<open>
  Claim C6. Whatever the label string, the table of label mass shifts, the number of
  missed cleavages and the knock-out flag: when \<^verbatim>\<open>generateMassPatterns_\<close> returns a list,
  every mass pattern of the list is non-empty and its first entry is 0.
\<close>

theorem C6_patterns_start_at_zero:
  assumes "generateMassPatterns cfg = Inr list" and "p \<in> set list"
  shows "p \<noteq> [] \<and> hd p = 0"
proof -
  from assms(1) obtain enum where e: "mass_shift_list cfg = Inr enum"
    and k: "knock_out_patterns (knock_out cfg) enum = Inr list"
    by (auto simp: generateMassPatterns_def split: sum.splits)
  have "\<forall>q \<in> set enum. q \<noteq> [] \<and> hd q = 0"
  proof
    fix q assume "q \<in> set enum"
    with e show "q \<noteq> [] \<and> hd q = 0" by (rule mass_shift_list_zero)
  qed
  with k show ?thesis using assms(2) by (rule knock_out_patterns_zero)
qed

theorem C6_patterns_start_at_zero_witness:
  "generateMassPatterns \<lparr>labels = ''[Dimethyl0][Dimethyl4][Dimethyl8]'', missed_cleavages = 1,
       knock_out = True, label_massshift = default_label_massshift\<rparr>
     = Inr [[0, 4.025107, 8.04437], [0, 8.050214, 16.08874],
            [0, 4.025107], [0, 4.019263], [0, 8.04437],
            [0, 8.050214], [0, 8.038526], [0, 16.08874], [0]]
   \<and> [0, 8.038526] \<in> set [[0, 4.025107, 8.04437], [0, 8.050214, 16.08874],
            [0, 4.025107], [0, 4.019263], [0, 8.04437],
            [0, 8.050214], [0, 8.038526], [0, 16.08874], [0::real]]
   \<and> [0, 8.038526] \<noteq> [] \<and> hd [0, 8.038526] = (0::real)"
  using C6_patterns_start_at_zero
    [of "\<lparr>labels = ''[Dimethyl0][Dimethyl4][Dimethyl8]'', missed_cleavages = 1,
          knock_out = True, label_massshift = default_label_massshift\<rparr>"
      "[[0, 4.025107, 8.04437], [0, 8.050214, 16.08874],
            [0, 4.025107], [0, 4.019263], [0, 8.04437],
            [0, 8.050214], [0, 8.038526], [0, 16.08874], [0]]" "[0, 8.038526]"]
  by (simp add: eval_defs)


subsection \<open>The labelling modes\<close>

lemma labelling_of_none_iff: "labelling_of ls = Inr none \<longleftrightarrow> labelling_none ls"
proof
  assume "labelling_of ls = Inr none"
  then show "labelling_none ls" by (auto simp: labelling_of_def Let_def split: if_splits)
next
  assume n: "labelling_none ls"
  then have "\<not> labelling_SILAC ls" "\<not> labelling_Dimethyl ls" "\<not> labelling_ICPL ls"
    by (auto simp: flag_defs)
  with n show "labelling_of ls = Inr none" by (simp add: labelling_of_def)
qed

lemma none_patterns:
  assumes "labelling_none (labels cfg)"
  shows "generateMassPatterns cfg = Inr [[0]]"
proof -
  from assms have m: "labelling_of (labels cfg) = Inr none" by (simp add: labelling_of_none_iff)
  from assms have "samples_labels_of (labels cfg) = []"
    by (auto simp: labelling_none_def samples_labels_of_def Let_def)
  with m show ?thesis
    by (simp add: generateMassPatterns_def mass_shift_list_def enumerate_patterns_def
        knock_out_patterns_def)
qed

lemma labelling_error:
  assumes "labelling_of (labels cfg) = Inl e"
  shows "generateMassPatterns cfg = Inl e"
  using assms by (simp add: generateMassPatterns_def mass_shift_list_def)

text \<open>
  Claim C5, as the claim states it, fails: the label string \<^verbatim>\<open>[][]\<close>, a sequence of two
  empty sets, is not classified as "none"; no labelling is recognised and the generator
  raises \<^verbatim>\<open>IllegalArgument\<close> instead of returning the singlet pattern.
\<close>

theorem C5_two_empty_sets_counterexample:
  "labelling_of ''[][]'' = Inl IllegalArgument
   \<and> generateMassPatterns \<lparr>labels = ''[][]'', missed_cleavages = 0, knock_out = False,
        label_massshift = default_label_massshift\<rparr> = Inl IllegalArgument"
  by (simp add: eval_defs)

text \<open>
  Claim C5, amended. The labelling is "none" exactly when the label string is empty or
  is one of \<^verbatim>\<open>[]\<close>, \<^verbatim>\<open>()\<close>, \<^verbatim>\<open>{}\<close>, and then the list returned is the singlet
  pattern \<open>[0]\<close> alone. When more than one of SILAC, Dimethyl and ICPL is indicated, or
  when none of the four flags holds (as for \<^verbatim>\<open>[][]\<close>), the generator raises
  \<^verbatim>\<open>IllegalArgument\<close> and returns no pattern.
\<close>

theorem C5_labelling_modes:
  "(labelling_of (labels cfg) = Inr none
      \<longleftrightarrow> labels cfg = [] \<or> labels cfg = ''[]'' \<or> labels cfg = ''()'' \<or> labels cfg = ''{}'')
   \<and> (labelling_of (labels cfg) = Inr none \<longrightarrow> generateMassPatterns cfg = Inr [[0]])
   \<and> ((labelling_SILAC (labels cfg) \<and> labelling_Dimethyl (labels cfg))
        \<or> (labelling_SILAC (labels cfg) \<and> labelling_ICPL (labels cfg))
        \<or> (labelling_Dimethyl (labels cfg) \<and> labelling_ICPL (labels cfg))
        \<or> (\<not> labelling_SILAC (labels cfg) \<and> \<not> labelling_Dimethyl (labels cfg)
            \<and> \<not> labelling_ICPL (labels cfg) \<and> \<not> labelling_none (labels cfg))
      \<longrightarrow> generateMassPatterns cfg = Inl IllegalArgument)"
proof (intro conjI impI)
  show "labelling_of (labels cfg) = Inr none
      \<longleftrightarrow> labels cfg = [] \<or> labels cfg = ''[]'' \<or> labels cfg = ''()'' \<or> labels cfg = ''{}''"
    by (simp add: labelling_of_none_iff labelling_none_def)
next
  assume "labelling_of (labels cfg) = Inr none"
  then show "generateMassPatterns cfg = Inr [[0]]"
    by (simp add: labelling_of_none_iff none_patterns)
next
  assume "(labelling_SILAC (labels cfg) \<and> labelling_Dimethyl (labels cfg))
        \<or> (labelling_SILAC (labels cfg) \<and> labelling_ICPL (labels cfg))
        \<or> (labelling_Dimethyl (labels cfg) \<and> labelling_ICPL (labels cfg))
        \<or> (\<not> labelling_SILAC (labels cfg) \<and> \<not> labelling_Dimethyl (labels cfg)
            \<and> \<not> labelling_ICPL (labels cfg) \<and> \<not> labelling_none (labels cfg))"
  then have "labelling_of (labels cfg) = Inl IllegalArgument"
    by (auto simp: labelling_of_def)
  then show "generateMassPatterns cfg = Inl IllegalArgument" by (rule labelling_error)
qed

theorem C5_labelling_modes_witness:
  "labelling_of ''[]'' = Inr none
   \<and> generateMassPatterns \<lparr>labels = ''[]'', missed_cleavages = 0, knock_out = True,
        label_massshift = default_label_massshift\<rparr> = Inr [[0]]
   \<and> labelling_SILAC ''[Dimethyl0][Lys8]'' \<and> labelling_Dimethyl ''[Dimethyl0][Lys8]''
   \<and> generateMassPatterns \<lparr>labels = ''[Dimethyl0][Lys8]'', missed_cleavages = 0,
        knock_out = True, label_massshift = default_label_massshift\<rparr> = Inl IllegalArgument
   \<and> \<not> labelling_none ''[][]''
   \<and> generateMassPatterns \<lparr>labels = ''[][]'', missed_cleavages = 0,
        knock_out = True, label_massshift = default_label_massshift\<rparr> = Inl IllegalArgument"
  using
    C5_labelling_modes [of "\<lparr>labels = ''[]'', missed_cleavages = 0, knock_out = True,
        label_massshift = default_label_massshift\<rparr>"]
    C5_labelling_modes [of "\<lparr>labels = ''[Dimethyl0][Lys8]'', missed_cleavages = 0,
        knock_out = True, label_massshift = default_label_massshift\<rparr>"]
    C5_labelling_modes [of "\<lparr>labels = ''[][]'', missed_cleavages = 0,
        knock_out = True, label_massshift = default_label_massshift\<rparr>"]
  by (simp add: flag_defs)

subsection \<open>SILAC with missed cleavages\<close>

text \<open>
  Claim C7. For the label string \<^verbatim>\<open>[][Arg6,Lys8]\<close>, one missed cleavage and the default
  label table, with or without knock-outs, the generator returns the five doublets of the
  peptides with one Lys, two Lys, one Arg, one Arg and one Lys, and two Arg; the mass
  shifts in the list include 0, 6.0201290268 (Arg6), 8.0141988132 (Lys8) and their sum
  14.03432784.
\<close>

theorem C7_Arg6_Lys8_shifts:
  "generateMassPatterns \<lparr>labels = ''[][Arg6,Lys8]'', missed_cleavages = 1,
       knock_out = ko, label_massshift = default_label_massshift\<rparr>
     = Inr ([[0, 8.0141988132], [0, 16.0283976264], [0, 6.0201290268], [0, 14.03432784],
             [0, 12.0402580536]] @ (if ko then [[0]] else []))
   \<and> 0 \<in> set (concat ([[0, 8.0141988132], [0, 16.0283976264], [0, 6.0201290268],
             [0, 14.03432784], [0, 12.0402580536::real]] @ (if ko then [[0]] else [])))
   \<and> 6.0201290268 \<in> set (concat ([[0, 8.0141988132], [0, 16.0283976264], [0, 6.0201290268],
             [0, 14.03432784], [0, 12.0402580536::real]] @ (if ko then [[0]] else [])))
   \<and> 8.0141988132 \<in> set (concat ([[0, 8.0141988132], [0, 16.0283976264], [0, 6.0201290268],
             [0, 14.03432784], [0, 12.0402580536::real]] @ (if ko then [[0]] else [])))
   \<and> 14.03432784 \<in> set (concat ([[0, 8.0141988132], [0, 16.0283976264], [0, 6.0201290268],
             [0, 14.03432784], [0, 12.0402580536::real]] @ (if ko then [[0]] else [])))"
  by (simp add: eval_defs)

subsection \<open>Knock-outs\<close>

lemma knock_out4_length: "knock_out4 p = Inr qs \<Longrightarrow> length qs = 9"
  by (auto simp: knock_out4_def split: if_splits)

lemma knock_out3_length: "knock_out3 p = Inr qs \<Longrightarrow> length qs = 3"
  by (auto simp: knock_out3_def split: if_splits)

text \<open>
  From a quadruplet \<open>[0, a, b, c]\<close> with increasing shifts the knock-out block derives
  three triplets, six doublets and no other pattern: the triplet \<open>[0, a, c]\<close> of the
  quadruplet without its third peptide is not among them.
\<close>

lemma knock_out4_misses_triplet:
  assumes "0 < a" and "a < b" and "b < c"
  shows "knock_out4 [0, a, b, c]
           = Inr [[0, b - a, c - a], [0, b, c], [0, a, b],
                  [0, a], [0, b], [0, c], [0, b - a], [0, c - a], [0, c - b]]
     \<and> [0, a, c] \<notin> set [[0, b - a, c - a], [0, b, c], [0, a, b],
                  [0, a], [0, b], [0, c], [0, b - a], [0, c - a], [0, c - b]]"
  using assms by (simp add: knock_out4_def)

text \<open>
  Claim C3 (defect of the code). For the ICPL quadruplet \<^verbatim>\<open>[ICPL0][ICPL4][ICPL6][ICPL10]\<close>
  with knock-outs the generator returns the quadruplet, three triplets, six doublets and
  the singlet. The fourth triplet of the claim, \<open>[0, 4.025107, 10.045236]\<close> (the
  quadruplet without its third peptide), is not in the list.
\<close>

theorem C3_quadruplet_knock_out:
  "generateMassPatterns \<lparr>labels = ''[ICPL0][ICPL4][ICPL6][ICPL10]'', missed_cleavages = 0,
       knock_out = True, label_massshift = default_label_massshift\<rparr>
     = Inr [[0, 4.025107, 6.020129, 10.045236],
            [0, 1.995022, 6.020129], [0, 6.020129, 10.045236], [0, 4.025107, 6.020129],
            [0, 4.025107], [0, 6.020129], [0, 10.045236],
            [0, 1.995022], [0, 6.020129], [0, 4.025107], [0]]
   \<and> [0, 4.025107, 10.045236]
       \<notin> set [[0, 4.025107, 6.020129, 10.045236],
            [0, 1.995022, 6.020129], [0, 6.020129, 10.045236], [0, 4.025107, 6.020129],
            [0, 4.025107], [0, 6.020129], [0, 10.045236],
            [0, 1.995022], [0, 6.020129], [0, 4.025107], [0::real]]"
  by (simp add: eval_defs)

text \<open>
  Claim C4, as the claim states it, fails: for the label string \<^verbatim>\<open>[][Lys6,Arg6]\<close> the
  peptide with one Lys and the peptide with one Arg give the same doublet (Lys6 and Arg6
  shift the mass by the same amount), and the list returned holds it twice.
\<close>

theorem C4_duplicate_counterexample:
  "generateMassPatterns \<lparr>labels = ''[][Lys6,Arg6]'', missed_cleavages = 0,
       knock_out = True, label_massshift = default_label_massshift\<rparr>
     = Inr [[0, 6.0201290268], [0, 6.0201290268], [0]]
   \<and> \<not> distinct [[0, 6.0201290268], [0, 6.0201290268], [0::real]]"
  by (simp add: eval_defs)

text \<open>
  Claim C4, amended. The generator removes nothing from its list: the list returned
  starts with all \<open>m\<close> enumerated patterns in the order of enumeration and, with
  knock-outs, continues with nine patterns for each of them and the singlet when the
  first pattern has four entries (\<open>10 m + 1\<close> patterns), with three patterns for each
  of them and the singlet when it has three (\<open>4 m + 1\<close>), and with the singlet when it
  has two (\<open>m + 1\<close>); patterns that coincide are listed once per occurrence.
\<close>

theorem C4_no_deduplication:
  assumes "generateMassPatterns cfg = Inr list"
  shows "\<exists>enum. mass_shift_list cfg = Inr enum \<and> enum \<noteq> [] \<and> take (length enum) list = enum
     \<and> length list =
         (if knock_out cfg \<and> length (hd enum) = 4 then 10 * length enum + 1
          else if knock_out cfg \<and> length (hd enum) = 3 then 4 * length enum + 1
          else if knock_out cfg \<and> length (hd enum) = 2 then length enum + 1
          else length enum)"
proof -
  from assms obtain enum where e: "mass_shift_list cfg = Inr enum"
    and k: "knock_out_patterns (knock_out cfg) enum = Inr list"
    by (auto simp: generateMassPatterns_def split: sum.splits)
  from k obtain first rest where enum: "enum = first # rest"
    by (cases enum) (auto simp: knock_out_patterns_def)
  consider (four) "knock_out cfg \<and> length first = 4" | (three) "knock_out cfg \<and> length first = 3"
    | (two) "knock_out cfg \<and> length first = 2"
    | (other) "\<not> (knock_out cfg \<and> length first \<in> {2, 3, 4})"
    by auto
  then have "take (length enum) list = enum \<and> length list =
         (if knock_out cfg \<and> length first = 4 then 10 * length enum + 1
          else if knock_out cfg \<and> length first = 3 then 4 * length enum + 1
          else if knock_out cfg \<and> length first = 2 then length enum + 1
          else length enum)"
  proof cases
    case four
    with k enum obtain added where a: "collect (map knock_out4 enum) = Inr added"
      and out: "list = enum @ concat added @ [[0]]"
      by (auto simp: knock_out_patterns_def Let_def split: sum.splits)
    from a have "length (concat added) = 9 * length enum"
      by (rule collect_concat_length) (rule knock_out4_length)
    with four out show ?thesis by simp
  next
    case three
    with k enum obtain added where a: "collect (map knock_out3 enum) = Inr added"
      and out: "list = enum @ concat added @ [[0]]"
      by (auto simp: knock_out_patterns_def Let_def split: sum.splits)
    from a have "length (concat added) = 3 * length enum"
      by (rule collect_concat_length) (rule knock_out3_length)
    with three out show ?thesis by simp
  next
    case two
    with k enum have "list = enum @ [[0]]" by (auto simp: knock_out_patterns_def Let_def)
    with two show ?thesis by simp
  next
    case other
    with k enum have "list = enum"
      by (auto simp: knock_out_patterns_def Let_def split: if_splits)
    with other show ?thesis by auto
  qed
  with e enum show ?thesis by simp
qed

theorem C4_no_deduplication_witness:
  "generateMassPatterns \<lparr>labels = ''[][Lys6,Arg6]'', missed_cleavages = 0,
       knock_out = True, label_massshift = default_label_massshift\<rparr>
     = Inr [[0, 6.0201290268], [0, 6.0201290268], [0]]
   \<and> mass_shift_list \<lparr>labels = ''[][Lys6,Arg6]'', missed_cleavages = 0,
       knock_out = True, label_massshift = default_label_massshift\<rparr>
       = Inr [[0, 6.0201290268], [0, 6.0201290268]]
   \<and> length [[0, 6.0201290268], [0, 6.0201290268], [0::real]] = 2 + 1"
  using C4_no_deduplication
    [of "\<lparr>labels = ''[][Lys6,Arg6]'', missed_cleavages = 0,
          knock_out = True, label_massshift = default_label_massshift\<rparr>"
      "[[0, 6.0201290268], [0, 6.0201290268], [0]]"]
  by (simp add: eval_defs)

text \<open>
  The reads of the knock-out block stay in range when no enumerated pattern is shorter
  than the first one.
\<close>

lemma knock_out_patterns_in_bounds:
  assumes "list \<noteq> []" and "\<forall>p \<in> set list. length (hd list) \<le> length p"
  shows "\<exists>out. knock_out_patterns ko list = Inr out"
proof -
  from assms(1) obtain first rest where l: "list = first # rest" by (cases list) auto
  have four: "length first = 4 \<Longrightarrow> collect (map knock_out4 list)
          = Inr (map (\<lambda>p. [[0, p ! 2 - p ! 1, p ! 3 - p ! 1],
                [0, p ! 2 - p ! 0, p ! 3 - p ! 0],
                [0, p ! 1 - p ! 0, p ! 2 - p ! 0],
                [0, p ! 1], [0, p ! 2], [0, p ! 3],
                [0, p ! 2 - p ! 1], [0, p ! 3 - p ! 1], [0, p ! 3 - p ! 2]]) list)"
    using assms(2) l by (intro collect_map_Inr) (auto simp: knock_out4_def)
  have three: "length first = 3 \<Longrightarrow> collect (map knock_out3 list)
          = Inr (map (\<lambda>p. [[0, p ! 1], [0, p ! 2 - p ! 1], [0, p ! 2]]) list)"
    using assms(2) l by (intro collect_map_Inr) (auto simp: knock_out3_def)
  show ?thesis using four three l by (auto simp: knock_out_patterns_def Let_def)
qed

text \<open>
  Claim C10 (defect of the code). For the SILAC label string \<^verbatim>\<open>[Lys4][Lys8,Arg10]\<close> the
  enumeration gives a triplet for the peptide with one Lys and a doublet for the peptide
  with one Arg, whose first sample carries no Arg label and is skipped. The first pattern
  has three entries, so that with knock-outs the block for triplets reads the doublet at
  index 2, beyond its end.
\<close>

theorem C10_knock_out_reads_out_of_bounds:
  "mass_shift_list \<lparr>labels = ''[Lys4][Lys8,Arg10]'', missed_cleavages = 0,
       knock_out = True, label_massshift = default_label_massshift\<rparr>
     = Inr [[0, 4.0251069836, 8.0141988132], [0, 10.0082686]]
   \<and> knock_out3 [0, 10.0082686] = Inl OutOfBounds
   \<and> generateMassPatterns \<lparr>labels = ''[Lys4][Lys8,Arg10]'', missed_cleavages = 0,
       knock_out = True, label_massshift = default_label_massshift\<rparr>
     = Inl OutOfBounds"
  by (simp add: eval_defs)


section \<open>Properties of the quantitation\<close>

subsection \<open>The loops of the regression\<close>

lemma foldl_index:
  "foldl (\<lambda>s i. f s (xs ! i)) s [0 ..< length xs] = foldl f s xs"
proof (induction xs arbitrary: s rule: rev_induct)
  case Nil
  then show ?case by simp
next
  case (snoc x xs)
  have "foldl (\<lambda>s i. f s ((xs @ [x]) ! i)) s [0 ..< length xs]
          = foldl (\<lambda>s i. f s (xs ! i)) s [0 ..< length xs]"
    by (rule foldl_cong) (simp_all add: nth_append)
  with snoc show ?case by simp
qed

lemma pair_fold:
  "foldl (\<lambda>st ab. case st of (i1, i2, I) \<Rightarrow>
            if \<not> isnan (fst ab) \<and> \<not> isnan (snd ab)
            then (i1 @ [fst ab], i2 @ [snd ab], I + snd ab) else (i1, i2, I)) (i1, i2, I) ps
     = (i1 @ map fst (filter (\<lambda>(a, b). \<not> isnan a \<and> \<not> isnan b) ps),
        i2 @ map snd (filter (\<lambda>(a, b). \<not> isnan a \<and> \<not> isnan b) ps),
        foldl (+) I (map snd (filter (\<lambda>(a, b). \<not> isnan a \<and> \<not> isnan b) ps)))"
  by (induction ps arbitrary: i1 i2 I) auto

lemma nonNaN_loop:
  assumes "length xp = length x1"
  shows "foldl (nonNaN_step x1 xp) (i1, i2, I) [0 ..< length x1]
           = (i1 @ map fst (valid_pairs x1 xp), i2 @ map snd (valid_pairs x1 xp),
              foldl (+) I (map snd (valid_pairs x1 xp)))"
proof -
  let ?g = "\<lambda>(st :: double list \<times> double list \<times> double) (ab :: double \<times> double).
      case st of (i1, i2, I) \<Rightarrow>
        if \<not> isnan (fst ab) \<and> \<not> isnan (snd ab)
        then (i1 @ [fst ab], i2 @ [snd ab], I + snd ab) else (i1, i2, I)"
  have len: "length (zip x1 xp) = length x1" using assms by simp
  have "foldl (nonNaN_step x1 xp) (i1, i2, I) [0 ..< length x1]
          = foldl (\<lambda>s i. ?g s (zip x1 xp ! i)) (i1, i2, I) [0 ..< length (zip x1 xp)]"
    unfolding len
    by (rule foldl_cong) (use assms in \<open>auto simp: nonNaN_step_def split: prod.splits\<close>)
  also have "\<dots> = foldl ?g (i1, i2, I) (zip x1 xp)" by (rule foldl_index)
  also have "\<dots> = (i1 @ map fst (valid_pairs x1 xp), i2 @ map snd (valid_pairs x1 xp),
              foldl (+) I (map snd (valid_pairs x1 xp)))"
    unfolding valid_pairs_def by (rule pair_fold)
  finally show ?thesis .
qed

lemma addData_fold:
  "foldl (\<lambda>r ab. addData1 r (fst ab) (snd ab)) r ps
     = \<lparr>sum_xx = foldl (+) (sum_xx r) (map (\<lambda>(a, b). a * a) ps),
        sum_xy = foldl (+) (sum_xy r) (map (\<lambda>(a, b). a * b) ps),
        n_data = n_data r + int (length ps)\<rparr>"
  by (induction ps arbitrary: r) (auto simp: addData1_def split: prod.splits)

lemma addData_pairs:
  "addData new_linreg (map fst ps) (map snd ps)
     = Inr \<lparr>sum_xx = dsum (map (\<lambda>(a, b). a * a) ps),
            sum_xy = dsum (map (\<lambda>(a, b). a * b) ps),
            n_data = int (length ps)\<rparr>"
proof -
  have "foldl (\<lambda>r i. addData1 r (map fst ps ! i) (map snd ps ! i)) new_linreg [0 ..< length ps]
          = foldl (\<lambda>r i. (\<lambda>r ab. addData1 r (fst ab) (snd ab)) r (ps ! i)) new_linreg
              [0 ..< length ps]"
    by (rule foldl_cong) simp_all
  also have "\<dots> = foldl (\<lambda>r ab. addData1 r (fst ab) (snd ab)) new_linreg ps"
    by (rule foldl_index)
  finally show ?thesis
    by (simp add: addData_def addData_fold dsum_def new_linreg_def)
qed

lemma times_double_commute: "(a :: double) * b = b * a"
  by (cases a; cases b) (simp_all add: mult.commute)

lemma ratio_and_intensity_eq:
  assumes "length xp = length x1"
  shows "ratio_and_intensity x1 (length x1) xp = Inr (fitted_ratio x1 xp, raw_sum x1 xp)"
proof -
  have swap: "(\<lambda>(a, b). a * b) = (\<lambda>(a :: double, b). b * a)"
    by (simp add: fun_eq_iff times_double_commute)
  show ?thesis
    unfolding ratio_and_intensity_def nonNaN_loop [OF assms]
    by (simp add: addData_pairs getSlope_def fitted_ratio_def raw_sum_def dsum_def swap)
qed



subsection \<open>Evaluation of the arithmetic\<close>

lemma to_double_zero: "to_double 0 = Fin 0"
  by (simp add: to_double_def)

lemma to_double_moderate:
  assumes "1 / 1000 \<le> \<bar>r\<bar>" and "\<bar>r\<bar> \<le> 1000000"
  shows "to_double r = Fin r"
proof -
  have "(1 :: real) / 2 ^ 1075 < 1 / 1000" by simp
  with assms(1) have low: "\<not> \<bar>r\<bar> \<le> 1 / 2 ^ 1075" by linarith
  have "(1000000 :: real) < 2 ^ 1024 - 2 ^ 970" by simp
  with assms(2) have high: "\<not> 2 ^ 1024 - 2 ^ 970 \<le> \<bar>r\<bar>" by linarith
  from low high show ?thesis by (simp only: to_double_def if_False)
qed

lemmas double_eval = to_double_zero to_double_moderate


subsection \<open>A zero denominator\<close>







subsection \<open>The corrected intensities\<close>

lemma map_index_Cons:
  "map (\<lambda>i. f ((x # xs) ! i)) [1 ..< Suc (length xs)] = map f xs"
proof -
  have "[1 ..< Suc (length xs)] = map Suc [0 ..< length xs]"
    by (simp add: map_Suc_upt)
  then have "map (\<lambda>i. f ((x # xs) ! i)) [1 ..< Suc (length xs)]
               = map (\<lambda>i. f (xs ! i)) [0 ..< length xs]"
    by (simp add: comp_def)
  also have "\<dots> = map f (map (\<lambda>i. xs ! i) [0 ..< length xs])" by (simp add: comp_def)
  also have "\<dots> = map f xs" by (simp add: map_nth)
  finally show ?thesis .
qed


text \<open>
  Claim C8. For a light peptide \<open>x1\<close> and labelled peptides \<open>ps\<close>, all vectors of one
  length, \<^verbatim>\<open>getPeptideIntensities\<close> returns: for one peptide its raw sum \<open>I\<^sub>1\<close>; for
  two peptides \<open>I\<^sub>1' = (I\<^sub>1 + r \<cdot> I\<^sub>2) / (1 + r\<^sup>2)\<close> and \<open>I\<^sub>2' = r \<cdot> I\<^sub>1'\<close> with the
  fitted ratio \<open>r\<close>; for three peptides or more \<open>I\<^sub>1\<close> followed by \<open>r\<^sub>p \<cdot> I\<^sub>1\<close> for
  every labelled peptide \<open>p\<close>. The raw sum \<open>I\<^sub>p\<close> runs over the samples in which neither
  the light intensity nor that of peptide \<open>p\<close> is NaN.
\<close>

theorem C8_reconciliation:
  assumes "\<forall>p \<in> set ps. length p = length x1"
  shows "getPeptideIntensities (x1 # ps) = Inr
     (case ps of
        [] \<Rightarrow> [raw_sum x1 x1]
      | [x2] \<Rightarrow>
          [(raw_sum x1 x1 + fitted_ratio x1 x2 * raw_sum x1 x2)
             / (Fin 1 + fitted_ratio x1 x2 * fitted_ratio x1 x2),
           fitted_ratio x1 x2
             * ((raw_sum x1 x1 + fitted_ratio x1 x2 * raw_sum x1 x2)
                  / (Fin 1 + fitted_ratio x1 x2 * fitted_ratio x1 x2))]
      | _ \<Rightarrow> raw_sum x1 x1 # map (\<lambda>xp. fitted_ratio x1 xp * raw_sum x1 x1) ps)"
proof -
  let ?g = "\<lambda>xp. (fitted_ratio x1 xp, raw_sum x1 xp)"
  have "\<forall>xp \<in> set (x1 # ps). ratio_and_intensity x1 (length x1) xp = Inr (?g xp)"
    using assms by (auto intro: ratio_and_intensity_eq)
  then have c: "collect (map (ratio_and_intensity x1 (length x1)) (x1 # ps))
                  = Inr (map ?g (x1 # ps))"
    by (rule collect_map_Inr)
  have same: "\<not> (\<exists>p \<in> set (x1 # ps). length p \<noteq> length x1)" using assms by simp
  have start: "getPeptideIntensities (x1 # ps) =
     (let ratios = map fst (map ?g (x1 # ps)); intensities = map snd (map ?g (x1 # ps))
      in if length (x1 # ps) = 2 then
           (let intensity1 = (intensities ! 0 + ratios ! 1 * intensities ! 1)
                               / (Fin 1 + ratios ! 1 * ratios ! 1);
                intensity2 = ratios ! 1 * intensity1
            in Inr [intensity1, intensity2])
         else if length (x1 # ps) > 2 then
           Inr (intensities ! 0
                # map (\<lambda>i. ratios ! i * intensities ! 0) [1 ..< length (x1 # ps)])
         else Inr [intensities ! 0])"
    unfolding getPeptideIntensities_def list.case Let_def c using same by simp
  show ?thesis
  proof (cases ps)
    case Nil
    then show ?thesis unfolding start by simp
  next
    case (Cons x2 rest)
    show ?thesis
    proof (cases rest)
      case Nil
      with Cons show ?thesis unfolding start by (simp add: Let_def)
    next
      case (Cons x3 more)
      have "map (\<lambda>i. (\<lambda>r. r * raw_sum x1 x1)
                        ((fitted_ratio x1 x1 # map (fitted_ratio x1) ps) ! i))
              [1 ..< Suc (length (map (fitted_ratio x1) ps))]
              = map (\<lambda>r. r * raw_sum x1 x1) (map (fitted_ratio x1) ps)"
        by (rule map_index_Cons)
      then have "map (\<lambda>i. map fst (map ?g (x1 # ps)) ! i * raw_sum x1 x1)
                      [1 ..< Suc (length ps)]
                      = map (\<lambda>xp. fitted_ratio x1 xp * raw_sum x1 x1) ps"
        by (simp add: comp_def del: upt_Suc)
      moreover have "length (x1 # ps) > 2" "length (x1 # ps) \<noteq> 2"
        using \<open>ps = x2 # rest\<close> Cons by simp_all
      ultimately have "getPeptideIntensities (x1 # ps)
          = Inr (raw_sum x1 x1 # map (\<lambda>xp. fitted_ratio x1 xp * raw_sum x1 x1) ps)"
        unfolding start Let_def by (simp del: upt_Suc)
      then show ?thesis using \<open>ps = x2 # rest\<close> Cons by simp
    qed
  qed
qed


theorem C8_reconciliation_witness:
  "getPeptideIntensities [[Fin 1, Fin 2, NaN, Fin 3]] = Inr [Fin 6]
   \<and> getPeptideIntensities [[Fin 1, Fin 2, NaN, Fin 3], [Fin 2, Fin 4, Fin 5, NaN]]
       = Inr [Fin (18 / 5), Fin (36 / 5)]
   \<and> getPeptideIntensities [[Fin 1, Fin 2, NaN, Fin 3], [Fin 2, Fin 4, Fin 5, NaN],
                              [Fin 3, Fin 6, NaN, NaN]]
       = Inr [Fin 6, Fin 12, Fin 18]"
  using C8_reconciliation [of "[]" "[Fin 1, Fin 2, NaN, Fin 3]"]
    C8_reconciliation [of "[[Fin 2, Fin 4, Fin 5, NaN]]" "[Fin 1, Fin 2, NaN, Fin 3]"]
    C8_reconciliation [of "[[Fin 2, Fin 4, Fin 5, NaN], [Fin 3, Fin 6, NaN, NaN]]"
      "[Fin 1, Fin 2, NaN, Fin 3]"]
  by (simp add: fitted_ratio_def raw_sum_def valid_pairs_def dsum_def isnan_def double_eval)

section \<open>Properties of the maps and of the run\<close>

subsection \<open>The quality of a cluster\<close>

lemma quality_values:
  assumes "0 < n" and "n < 2 ^ 64"
  shows "quality n = Inr (Fin (if n = 1 then 0 else 1))"
proof -
  let ?w = "word_of_nat n :: 64 word"
  have u: "unat ?w = n" using assms(2) by (simp add: unat_of_nat take_bit_nat_eq_self)
  then have nz: "?w \<noteq> 0" using assms(1) by (metis unat_0 less_numeral_extra(3))
  have "unat (1 div ?w) = unat (1 :: 64 word) div unat ?w" by (rule unat_div)
  then have d: "unat (1 div ?w) = 1 div n" using u by simp
  show ?thesis
  proof (cases "n = 1")
    case True
    then show ?thesis by (simp add: quality_def)
  next
    case False
    with assms(1) have "1 div n = 0" by simp
    with d have "1 div ?w = 0" by (simp add: unat_eq_0)
    with nz False show ?thesis by (simp add: quality_def Let_def)
  qed
qed

text \<open>The consensus feature of a cluster and the features of its peptides carry that quality.\<close>

lemma cluster_features_quality:
  assumes "cluster_features ipp_max patterns filter_results pattern cluster
             = Inr (consensus, features)"
  shows "quality (length (points cluster)) = Inr (consensus_quality consensus)
     \<and> (\<forall>f \<in> set features. feature_overall_quality f = consensus_quality consensus)"
  using assms
  by (auto simp: cluster_features_def Let_def split: sum.splits)

lemmas maps_eval = generateMaps_def pattern_step_def cluster_step_def cluster_features_def
  cluster_point_step_def raw_step_def profile_step_def centre_step_def read_at_def
  getMassShiftCount_def generatePeakPatterns_def example_peak_def quality_def
  getPeptideIntensities_def ratio_and_intensity_def nonNaN_step_def addData_def addData1_def
  new_linreg_def getSlope_def isnan_def Let_def

text \<open>
  Claim C1 (defect of the code). The quality of a cluster of two points is 1, not
  \<open>1 - 1/2\<close>: the quotient \<^verbatim>\<open>1/points.size()\<close> is an integer division and gives 0.
  The maps generated for one doublet pattern and one cluster of two result peaks hold a
  consensus feature of quality 1 and two features of overall quality 1.
\<close>

theorem C1_quality_of_two_points:
  "quality 2 = Inr (Fin 1)
   \<and> quality 2 \<noteq> Inr (Fin (1 - 1 / 2))
   \<and> generateMaps 2 (generatePeakPatterns 2 2 2 [[0, 8]]) [[example_peak, example_peak]]
       [[(0, \<lparr>points = [0, 1]\<rparr>)]]
     = Inr ([\<lparr>consensus_mz = Fin 500, consensus_rt = Fin 100,
               consensus_intensity = Fin 81, consensus_charge = 2,
               consensus_quality = Fin 1,
               consensus_handles =
                 [\<lparr>handle_mz = Fin 500, handle_rt = Fin 100,
                   handle_intensity = Fin 54, handle_charge = 2,
                   handle_map_index = 0\<rparr>,
                  \<lparr>handle_mz = Fin 504, handle_rt = Fin 100,
                   handle_intensity = Fin 108, handle_charge = 2,
                   handle_map_index = 1\<rparr>]\<rparr>],
            [\<lparr>feature_mz = Fin 500, feature_rt = Fin 100,
               feature_intensity = Fin 54, feature_charge = 2,
               feature_overall_quality = Fin 1\<rparr>,
             \<lparr>feature_mz = Fin 504, feature_rt = Fin 100,
               feature_intensity = Fin 108, feature_charge = 2,
               feature_overall_quality = Fin 1\<rparr>])"
  by (simp add: maps_eval double_eval upto.simps eval_nat_numeral)

subsection \<open>A run without spectra of level 1\<close>

lemma fold_err_fixed: "\<forall>x \<in> set xs. f s x = Inr s \<Longrightarrow> fold_err f s xs = Inr s"
  by (induction xs) simp_all

text \<open>Without clusters both maps stay empty.\<close>

lemma generateMaps_no_clusters:
  assumes "length patterns \<le> length cluster_results"
    and "\<forall>clusters \<in> set cluster_results. clusters = []"
  shows "generateMaps ipp_max patterns filter_results cluster_results = Inr ([], [])"
  unfolding generateMaps_def
proof (rule fold_err_fixed, rule ballI)
  fix pattern assume "pattern \<in> set [0 ..< length patterns]"
  with assms(1) have "pattern < length cluster_results" by simp
  moreover from this assms(2) have "cluster_results ! pattern = []" by simp
  ultimately show "pattern_step ipp_max patterns filter_results cluster_results ([], []) pattern
                     = Inr ([], [])"
    by (simp add: pattern_step_def read_at_def)
qed

text \<open>
  \<^verbatim>\<open>main_\<close> makes no test of its own for an empty experiment: an error of the run on
  such an input is an error that a class called by \<^verbatim>\<open>main_\<close> raises. When none of them
  raises and the clusterer reports no cluster, the run stores two maps without entries and
  returns \<^verbatim>\<open>EXECUTION_OK\<close>.
\<close>

lemma main_makes_no_test:
  assumes "load c (in_file cfg) = Inr loaded"
    and "level1 loaded = []"
    and "pickExperiment c (sortSpectra c []) = Inr (exp_picked, boundaries)"
    and "generateMassPatterns cfg = Inr masses"
    and "patterns = generatePeakPatterns (int (charge_min cfg)) (int (charge_max cfg))
                      (int (isotopes_per_peptide_max cfg)) masses"
    and "filtering c cfg (sortSpectra c []) exp_picked boundaries patterns = Inr filter_results"
    and "clustering c cfg (sortSpectra c []) exp_picked boundaries filter_results
           = Inr cluster_results"
    and "length cluster_results = length patterns"
    and "\<forall>clusters \<in> set cluster_results. clusters = []"
    and "store_consensus c (out_file cfg) (sort_consensus c []) = Inr ()"
    and "store_features c (out_features cfg) (sort_features c []) = Inr ()"
  shows "main c cfg
           = (Inr EXECUTION_OK,
              [ConsensusXML (out_file cfg) (sort_consensus c []),
               FeatureXML (out_features cfg) (sort_features c [])])"
proof -
  have "length patterns \<le> length cluster_results" using assms(8) by simp
  then have "generateMaps (isotopes_per_peptide_max cfg) patterns filter_results cluster_results
               = Inr ([], [])"
    using assms(9) by (rule generateMaps_no_clusters)
  with assms(1-7,10,11) show ?thesis by (simp add: main_def)
qed


lemma main_filter_or_clusterer_raises:
  assumes "load c (in_file cfg) = Inr loaded"
    and "pickExperiment c (sortSpectra c (level1 loaded)) = Inr (exp_picked, boundaries)"
    and "generateMassPatterns cfg = Inr masses"
    and "patterns = generatePeakPatterns (int (charge_min cfg)) (int (charge_max cfg))
                      (int (isotopes_per_peptide_max cfg)) masses"
    and "filtering c cfg (sortSpectra c (level1 loaded)) exp_picked boundaries patterns = Inl e
         \<or> (\<exists>filter_results.
               filtering c cfg (sortSpectra c (level1 loaded)) exp_picked boundaries patterns
                 = Inr filter_results
               \<and> clustering c cfg (sortSpectra c (level1 loaded)) exp_picked boundaries
                   filter_results = Inl e)"
  shows "main c cfg = (Inl e, [])"
  using assms by (auto simp: main_def)



end
